theory Spec2Isabelle
  imports Complex_Main "HOL-Library.Word"
begin

section \<open>use-watermark: the tile pipeline of \<^verbatim>\<open>src/lib/useWatermark.ts\<close>\<close>

text \<open>
  The development embeds the three functions of \<^verbatim>\<open>src/lib/useWatermark.ts\<close>:
  \<^verbatim>\<open>hexToRgba\<close> (lines 132-137), \<^verbatim>\<open>createWatermarkImage\<close> (lines 82-130) and the
  memoised part of the hook \<^verbatim>\<open>useWatermark\<close> (lines 49-61).

  Conventions of the embedding:
  \<^item> a JavaScript string is the list of its UTF-16 code units (\<open>16 word\<close>);
  \<^item> a JavaScript number is a \<open>real\<close>: finite doubles, rounding not modelled; the
    result of \<^verbatim>\<open>parseInt\<close> is an \<open>int option\<close>, \<open>None\<close> being \<^verbatim>\<open>NaN\<close>;
  \<^item> what the browser supplies (device pixel ratio, 2D context, text measurement,
    PNG encoding, number formatting) is a field of the record \<open>platform\<close>;
  \<^item> a thrown exception is the \<open>Inl\<close> of a sum type.
\<close>

subsection \<open>Strings\<close>

type_synonym code_unit = "16 word"
type_synonym jsstring = "code_unit list"

definition lit :: "string \<Rightarrow> jsstring" where
  \<comment> \<open>An ASCII literal of the source as code units.\<close>
  "lit s = map of_char s"

definition slice :: "jsstring \<Rightarrow> int \<Rightarrow> int \<Rightarrow> jsstring" where
  \<comment> \<open>\<^verbatim>\<open>String.prototype.slice(start, end)\<close>: negative positions count from the end,
      both positions are clamped to the string, an empty range gives the empty string.\<close>
  "slice s start end' =
     (let len = int (length s);
          from = (if start < 0 then max (len + start) 0 else min start len);
          to = (if end' < 0 then max (len + end') 0 else min end' len)
      in take (nat (to - from)) (drop (nat from) s))"

subsection \<open>\<^verbatim>\<open>parseInt\<close> and number formatting\<close>

definition isWhiteSpace :: "code_unit \<Rightarrow> bool" where
  \<comment> \<open>ECMAScript \<^verbatim>\<open>StrWhiteSpaceChar\<close>: TAB, LF, VT, FF, CR, the space separators of
      Unicode, LS, PS and the byte order mark.\<close>
  "isWhiteSpace c =
     (c \<in> {0x9, 0xA, 0xB, 0xC, 0xD, 0x20, 0xA0, 0x1680, 0x2028, 0x2029, 0x202F, 0x205F,
           0x3000, 0xFEFF}
      \<or> (0x2000 \<le> c \<and> c \<le> 0x200A))"

definition digitValue :: "code_unit \<Rightarrow> nat" where
  \<comment> \<open>The value of a digit \<^verbatim>\<open>0-9\<close>, \<^verbatim>\<open>A-Z\<close>, \<^verbatim>\<open>a-z\<close>; 36 for any other code unit,
      which no radix accepts.\<close>
  "digitValue c =
     (if 0x30 \<le> c \<and> c \<le> 0x39 then unat c - 0x30
      else if 0x41 \<le> c \<and> c \<le> 0x5A then unat c - 0x41 + 10
      else if 0x61 \<le> c \<and> c \<le> 0x7A then unat c - 0x61 + 10
      else 36)"

definition isRadixDigit :: "nat \<Rightarrow> code_unit \<Rightarrow> bool" where
  "isRadixDigit R c = (digitValue c < R)"

definition stripSign :: "jsstring \<Rightarrow> int \<times> jsstring" where
  \<comment> \<open>The sign of \<^verbatim>\<open>parseInt\<close> and the string after a leading \<^verbatim>\<open>+\<close> or \<^verbatim>\<open>-\<close>.\<close>
  "stripSign S =
     (case S of
        [] \<Rightarrow> (1, [])
      | c # rest \<Rightarrow> if c = 0x2D then (-1, rest) else if c = 0x2B then (1, rest) else (1, S))"

definition hasHexPrefix :: "jsstring \<Rightarrow> bool" where
  \<comment> \<open>The string starts with \<^verbatim>\<open>0x\<close> or \<^verbatim>\<open>0X\<close>.\<close>
  "hasHexPrefix S =
     (case S of c # d # rest \<Rightarrow> c = 0x30 \<and> (d = 0x78 \<or> d = 0x58) | _ \<Rightarrow> False)"

definition digitsValue :: "nat \<Rightarrow> jsstring \<Rightarrow> nat" where
  \<comment> \<open>The integer that a string of radix-\<open>R\<close> digits denotes.\<close>
  "digitsValue R Z = foldl (\<lambda>acc c. acc * R + digitValue c) 0 Z"

definition parseInt :: "jsstring \<Rightarrow> int \<Rightarrow> int option" where
  \<comment> \<open>\<^verbatim>\<open>parseInt(string, radix)\<close> of ECMAScript for an integer radix: leading white
      space is dropped, then a sign, then (radix 0 or 16) a hexadecimal prefix; the
      longest run of digits of the radix is the value, and an empty run is \<^verbatim>\<open>NaN\<close>.
      \<open>None\<close> is \<^verbatim>\<open>NaN\<close>; \<^verbatim>\<open>-0\<close> is \<open>Some 0\<close> (both print as \<^verbatim>\<open>0\<close>). The value
      is exact, as the double is for the at most two digits that \<^verbatim>\<open>hexToRgba\<close> passes.\<close>
  "parseInt string radix =
     (let (sign, S) = stripSign (dropWhile isWhiteSpace string)
      in if radix \<noteq> 0 \<and> (radix < 2 \<or> 36 < radix) then None
         else
           let stripPrefix = ((radix = 0 \<or> radix = 16) \<and> hasHexPrefix S);
               R = (if stripPrefix then 16 else if radix = 0 then 10 else nat radix);
               S = (if stripPrefix then drop 2 S else S);
               Z = takeWhile (isRadixDigit R) S
           in if Z = [] then None else Some (sign * int (digitsValue R Z)))"

fun natToString :: "nat \<Rightarrow> jsstring" where
  "natToString n =
     (if n < 10 then [of_nat (0x30 + n)]
      else natToString (n div 10) @ [of_nat (0x30 + n mod 10)])"

declare natToString.simps [simp del]

definition intToString :: "int option \<Rightarrow> jsstring" where
  \<comment> \<open>\<^verbatim>\<open>Number::toString\<close> on the result of \<^verbatim>\<open>parseInt\<close>: \<^verbatim>\<open>NaN\<close> or the decimal
      digits, with a minus sign below zero.\<close>
  "intToString v =
     (case v of
        None \<Rightarrow> lit ''NaN''
      | Some i \<Rightarrow> if i < 0 then 0x2D # natToString (nat (- i)) else natToString (nat i))"

subsection \<open>\<^verbatim>\<open>hexToRgba\<close>\<close>

text \<open>
  \<^verbatim>\<open>
  const hexToRgba = (hex: string, alpha: number) => {
    const r = parseInt(hex.slice(1, 3), 16)
    const g = parseInt(hex.slice(3, 5), 16)
    const b = parseInt(hex.slice(5, 7), 16)
    return `rgba(${r}, ${g}, ${b}, ${alpha})`
  }
  \<close>
  The first argument \<open>numberToString\<close> is the platform's \<^verbatim>\<open>Number::toString\<close> on the
  double \<^verbatim>\<open>alpha\<close>, which the embedding does not compute.
\<close>

definition rgbaString :: "int option \<Rightarrow> int option \<Rightarrow> int option \<Rightarrow> jsstring \<Rightarrow> jsstring" where
  \<comment> \<open>The template literal of line 136.\<close>
  "rgbaString r g b a =
     lit ''rgba('' @ intToString r @ lit '', '' @ intToString g @ lit '', '' @ intToString b
       @ lit '', '' @ a @ lit '')''"

definition hexToRgba :: "(real \<Rightarrow> jsstring) \<Rightarrow> jsstring \<Rightarrow> real \<Rightarrow> jsstring" where
  "hexToRgba numberToString hex alpha =
     (let r = parseInt (slice hex 1 3) 16;
          g = parseInt (slice hex 3 5) 16;
          b = parseInt (slice hex 5 7) 16
      in rgbaString r g b (numberToString alpha))"

subsection \<open>Options, errors and the platform\<close>

record WatermarkImageOption =
  fontSize :: real
  angle :: real
  opacity :: real
  color :: jsstring

record WatermarkOption = WatermarkImageOption +
  size' :: jsstring

definition defaultOption :: WatermarkOption where
  "defaultOption =
     \<lparr>fontSize = 14, angle = - 45, opacity = 5 / 100, color = lit ''#000000'',
      size' = lit ''180px 180px''\<rparr>"

datatype error =
    TypeError
  | InvalidStyleParameter
  | InvalidColorFormat
  | RenderUnavailable
  | MeasurementUnavailable

text \<open>
  \<open>TypeError\<close> is what the runtime throws when a property of \<^verbatim>\<open>null\<close> is written
  (line 92, after the non-null assertion of line 90). The other four are the error kinds
  that the specification names; no line of the source constructs them.
\<close>

datatype transform = Scale real real | Translate real real | Rotate real

record context2d =
  font :: jsstring
  fillStyle :: jsstring
  textAlign :: jsstring
  textBaseline :: jsstring
  transforms :: "transform list"

datatype drawing =
    ClearRect real real real real "transform list"
  | FillText jsstring real real context2d

record canvas =
  width :: int
  height :: int
  ctx :: context2d
  bitmap :: "drawing list"

record platform =
  window_devicePixelRatio :: real
  getContext2d :: bool
  measureText :: "jsstring \<Rightarrow> jsstring \<Rightarrow> real"
  toDataURL :: "canvas \<Rightarrow> jsstring \<Rightarrow> jsstring"
  numberToString :: "real \<Rightarrow> jsstring"

text \<open>
  The fields of \<open>platform\<close>: \<open>window_devicePixelRatio\<close> is \<^verbatim>\<open>window.devicePixelRatio\<close>,
  with 0 for every falsy value; \<open>getContext2d\<close> tells whether \<^verbatim>\<open>canvas.getContext('2d')\<close>
  returns a context (\<open>False\<close>: it returns \<^verbatim>\<open>null\<close>); \<open>measureText font text\<close> is
  \<^verbatim>\<open>ctx.measureText(text).width\<close> after \<^verbatim>\<open>ctx.font = font\<close> on a context in its default
  state; \<open>toDataURL canvas type\<close> is the encoder behind \<^verbatim>\<open>canvas.toDataURL(type)\<close>;
  \<open>numberToString\<close> is \<^verbatim>\<open>Number::toString\<close> on a double.
\<close>

subsection \<open>The canvas operations that the source calls\<close>

definition defaultContext :: context2d where
  \<comment> \<open>The default drawing state of a 2D context.\<close>
  "defaultContext =
     \<lparr>font = lit ''10px sans-serif'', fillStyle = lit ''#000000'', textAlign = lit ''start'',
      textBaseline = lit ''alphabetic'', transforms = []\<rparr>"

definition createElement_canvas :: canvas where
  \<comment> \<open>\<^verbatim>\<open>document.createElement('canvas')\<close>: 300 by 150, transparent.\<close>
  "createElement_canvas = \<lparr>width = 300, height = 150, ctx = defaultContext, bitmap = []\<rparr>"

definition set_font :: "jsstring \<Rightarrow> canvas \<Rightarrow> canvas" where
  \<comment> \<open>\<^verbatim>\<open>ctx.font = f\<close>. The assigned string is kept as it is; a string that is no CSS
      font is for the platform to ignore. Both assignments of the source act on a context
      in its default state.\<close>
  "set_font f c = c\<lparr>ctx := (ctx c)\<lparr>font := f\<rparr>\<rparr>"

definition set_fillStyle :: "jsstring \<Rightarrow> canvas \<Rightarrow> canvas" where
  \<comment> \<open>\<^verbatim>\<open>ctx.fillStyle = s\<close>. The assigned string is kept as it is; a string that is no
      CSS colour is for the platform to ignore.\<close>
  "set_fillStyle s c = c\<lparr>ctx := (ctx c)\<lparr>fillStyle := s\<rparr>\<rparr>"

definition set_textAlign :: "jsstring \<Rightarrow> canvas \<Rightarrow> canvas" where
  "set_textAlign s c = c\<lparr>ctx := (ctx c)\<lparr>textAlign := s\<rparr>\<rparr>"

definition set_textBaseline :: "jsstring \<Rightarrow> canvas \<Rightarrow> canvas" where
  "set_textBaseline s c = c\<lparr>ctx := (ctx c)\<lparr>textBaseline := s\<rparr>\<rparr>"

definition set_width :: "int \<Rightarrow> canvas \<Rightarrow> canvas" where
  \<comment> \<open>\<^verbatim>\<open>canvas.width = n\<close>: the bitmap is cleared and the context returns to its
      default state. The number assigned is kept; a side of \<open>2 ^ 31\<close> or more, which the
      attribute cannot hold, is outside the model.\<close>
  "set_width n c = c\<lparr>width := n, ctx := defaultContext, bitmap := []\<rparr>"

definition set_height :: "int \<Rightarrow> canvas \<Rightarrow> canvas" where
  "set_height n c = c\<lparr>height := n, ctx := defaultContext, bitmap := []\<rparr>"

definition transform :: "transform \<Rightarrow> canvas \<Rightarrow> canvas" where
  \<comment> \<open>\<^verbatim>\<open>ctx.scale\<close>, \<^verbatim>\<open>ctx.translate\<close>, \<^verbatim>\<open>ctx.rotate\<close>: the transformation is
      composed with the current one.\<close>
  "transform t c = c\<lparr>ctx := (ctx c)\<lparr>transforms := transforms (ctx c) @ [t]\<rparr>\<rparr>"

definition clearRect :: "real \<Rightarrow> real \<Rightarrow> real \<Rightarrow> real \<Rightarrow> canvas \<Rightarrow> canvas" where
  "clearRect x y w h c = c\<lparr>bitmap := bitmap c @ [ClearRect x y w h (transforms (ctx c))]\<rparr>"

definition fillText :: "jsstring \<Rightarrow> real \<Rightarrow> real \<Rightarrow> canvas \<Rightarrow> canvas" where
  "fillText t x y c = c\<lparr>bitmap := bitmap c @ [FillText t x y (ctx c)]\<rparr>"

subsection \<open>\<^verbatim>\<open>createWatermarkImage\<close>\<close>

text \<open>
  \<^verbatim>\<open>
  const createWatermarkImage = (text: string, options: WatermarkImageOption) => {
    const { fontSize, angle, opacity, color } = options
    const devicePixelRatio = window.devicePixelRatio || 1
    const canvas = document.createElement('canvas')
    const ctx = canvas.getContext('2d')!
    ctx.font = `${fontSize * devicePixelRatio}px sans-serif`
    const textMetrics = ctx.measureText(text)
    const textWidth = textMetrics.width
    const textHeight = fontSize * devicePixelRatio
    const canvasSize = Math.ceil(Math.sqrt(textWidth ** 2 + textHeight ** 2))
    canvas.width = canvasSize
    canvas.height = canvasSize
    ctx.scale(devicePixelRatio, devicePixelRatio)
    ctx.clearRect(0, 0, canvas.width, canvas.height)
    ctx.translate(canvas.width / (2 * devicePixelRatio), canvas.height / (2 * devicePixelRatio))
    ctx.rotate((angle * Math.PI) / 180)
    ctx.font = `${fontSize}px sans-serif`
    ctx.fillStyle = hexToRgba(color, opacity)
    ctx.textAlign = 'center'
    ctx.textBaseline = 'middle'
    ctx.fillText(text, 0, 0)
    return canvas.toDataURL('image/png')
  }
  \<close>
  The locals \<^verbatim>\<open>devicePixelRatio\<close>, \<^verbatim>\<open>textWidth\<close>, \<^verbatim>\<open>textHeight\<close> and \<^verbatim>\<open>canvasSize\<close> are
  definitions of their own, so that properties of the side can name them. The function
  accepts every object that has the four fields (a record scheme), as the structural
  type of the source does.
\<close>

definition devicePixelRatio :: "platform \<Rightarrow> real" where
  \<comment> \<open>Line 86: \<^verbatim>\<open>window.devicePixelRatio || 1\<close>.\<close>
  "devicePixelRatio p = (if window_devicePixelRatio p = 0 then 1 else window_devicePixelRatio p)"

definition measureFont :: "platform \<Rightarrow> 'a WatermarkImageOption_scheme \<Rightarrow> jsstring" where
  \<comment> \<open>Line 92: the font of the measurement, \<^verbatim>\<open>`${fontSize * devicePixelRatio}px sans-serif`\<close>.\<close>
  "measureFont p options =
     numberToString p (fontSize options * devicePixelRatio p) @ lit ''px sans-serif''"

definition textWidth :: "platform \<Rightarrow> jsstring \<Rightarrow> 'a WatermarkImageOption_scheme \<Rightarrow> real" where
  \<comment> \<open>Lines 92-94.\<close>
  "textWidth p text options =
     measureText p (font (ctx (set_font (measureFont p options) createElement_canvas))) text"

definition textHeight :: "platform \<Rightarrow> 'a WatermarkImageOption_scheme \<Rightarrow> real" where
  \<comment> \<open>Line 97.\<close>
  "textHeight p options = fontSize options * devicePixelRatio p"

definition diagonal :: "real \<Rightarrow> real \<Rightarrow> int" where
  \<comment> \<open>The expression of line 100 in the two locals it reads:
      \<^verbatim>\<open>Math.ceil(Math.sqrt(textWidth ** 2 + textHeight ** 2))\<close>.\<close>
  "diagonal w h = \<lceil>sqrt (w ^ 2 + h ^ 2)\<rceil>"

definition canvasSize :: "platform \<Rightarrow> jsstring \<Rightarrow> 'a WatermarkImageOption_scheme \<Rightarrow> int" where
  \<comment> \<open>Line 100.\<close>
  "canvasSize p text options = diagonal (textWidth p text options) (textHeight p options)"

definition drawWatermark ::
  "platform \<Rightarrow> jsstring \<Rightarrow> 'a WatermarkImageOption_scheme \<Rightarrow> error + canvas" where
  \<comment> \<open>Lines 83-126: the canvas before it is encoded.\<close>
  "drawWatermark p text options =
     (if \<not> getContext2d p then Inl TypeError
      else
        let canvas = set_font (measureFont p options) createElement_canvas;
            canvas = set_width (canvasSize p text options) canvas;
            canvas = set_height (canvasSize p text options) canvas;
            canvas = transform (Scale (devicePixelRatio p) (devicePixelRatio p)) canvas;
            canvas = clearRect 0 0 (of_int (width canvas)) (of_int (height canvas)) canvas;
            canvas = transform
                       (Translate (of_int (width canvas) / (2 * devicePixelRatio p))
                                  (of_int (height canvas) / (2 * devicePixelRatio p))) canvas;
            canvas = transform (Rotate (angle options * pi / 180)) canvas;
            canvas = set_font (numberToString p (fontSize options) @ lit ''px sans-serif'') canvas;
            canvas = set_fillStyle
                       (hexToRgba (numberToString p) (color options) (opacity options)) canvas;
            canvas = set_textAlign (lit ''center'') canvas;
            canvas = set_textBaseline (lit ''middle'') canvas;
            canvas = fillText text 0 0 canvas
        in Inr canvas)"

definition createWatermarkImage ::
  "platform \<Rightarrow> jsstring \<Rightarrow> 'a WatermarkImageOption_scheme \<Rightarrow> error + jsstring" where
  \<comment> \<open>Lines 82-130.\<close>
  "createWatermarkImage p text options =
     (case drawWatermark p text options of
        Inl e \<Rightarrow> Inl e
      | Inr canvas \<Rightarrow> Inr (toDataURL p canvas (lit ''image/png'')))"

subsection \<open>The memoised image of \<^verbatim>\<open>useWatermark\<close>\<close>

text \<open>
  \<^verbatim>\<open>
  export default function useWatermark (text: string, option?: WatermarkOption) {
    const { fontSize, angle, opacity, size, color } = { ...defaultOption, ...option }
    ...
    const watermarkImage = useMemo(
      () => createWatermarkImage(text, { fontSize, angle, opacity, color }),
      [text, fontSize, angle, opacity],
    )
    ...
    return { ref, watermarkImage }
  }
  \<close>
  The \<^verbatim>\<open>ref\<close> callback and the effect that writes the style of the container (lines 63-77)
  run after the render and are not part of the embedding.
\<close>

record ('d, 'v) memo =
  deps :: 'd
  memoValue :: 'v

record ('d, 'v) hook =
  memoizedState :: "('d, 'v) memo option"
  factoryCalls :: nat

text \<open>
  \<open>memoizedState\<close> is the cell that React keeps for \<^verbatim>\<open>useMemo\<close> between two renders
  of a component (\<open>None\<close> before the first render). \<open>factoryCalls\<close> is a ghost field: it
  counts the calls of the factory, so that a recomputation can be told from a reuse.
  Dependencies are compared by \<^verbatim>\<open>Object.is\<close>, which is equality on strings and on the
  numbers of the model.
\<close>

definition useMemo ::
  "(unit \<Rightarrow> error + 'v) \<Rightarrow> 'd \<Rightarrow> ('d, 'v) hook \<Rightarrow> error + 'v \<times> ('d, 'v) hook" where
  \<comment> \<open>React's \<^verbatim>\<open>useMemo(factory, deps)\<close>: the cached value is returned when every
      dependency is the same as at the last computation; otherwise the factory runs and
      its value is stored. An exception of the factory leaves the render.\<close>
  "useMemo factory nextDeps h =
     (let compute =
            (case factory () of
               Inl e \<Rightarrow> Inl e
             | Inr v \<Rightarrow>
                 Inr (v, \<lparr>memoizedState = Some \<lparr>deps = nextDeps, memoValue = v\<rparr>,
                          factoryCalls = Suc (factoryCalls h)\<rparr>))
      in case memoizedState h of
           None \<Rightarrow> compute
         | Some m \<Rightarrow> if deps m = nextDeps then Inr (memoValue m, h) else compute)"

type_synonym watermarkDeps = "jsstring \<times> real \<times> real \<times> real"

definition useWatermark ::
  "platform \<Rightarrow> jsstring \<Rightarrow> WatermarkOption option \<Rightarrow> (watermarkDeps, jsstring) hook
     \<Rightarrow> error + jsstring \<times> (watermarkDeps, jsstring) hook" where
  \<comment> \<open>Lines 49-61 and the \<^verbatim>\<open>watermarkImage\<close> of the returned object: one render of
      the hook. The type \<^verbatim>\<open>WatermarkOption\<close> has no optional field, so the spread
      \<^verbatim>\<open>{ ...defaultOption, ...option }\<close> is the option when one is given and the
      defaults otherwise.\<close>
  "useWatermark p text option' h =
     (let merged = (case option' of None \<Rightarrow> defaultOption | Some opt \<Rightarrow> opt)
      in useMemo
           (\<lambda>_. createWatermarkImage p text
                   \<lparr>fontSize = fontSize merged, angle = angle merged,
                    opacity = opacity merged, color = color merged\<rparr>)
           (text, fontSize merged, angle merged, opacity merged) h)"

subsection \<open>A platform to run the model on\<close>

definition paintedStyles :: "canvas \<Rightarrow> jsstring" where
  "paintedStyles c =
     concat (map (\<lambda>d. case d of FillText t x y st \<Rightarrow> fillStyle st | ClearRect x y w h ts \<Rightarrow> [])
                 (bitmap c))"

definition testPlatform :: platform where
  \<comment> \<open>A stand-in browser: pixel ratio 1, every code unit 3 pixels wide whatever the font,
      numbers printed as their integer part, and a data URL that shows the canvas size and
      the fill styles painted (\<^verbatim>\<open>data:,\<close> for a canvas without area, as browsers do).\<close>
  "testPlatform =
     \<lparr>window_devicePixelRatio = 1,
      getContext2d = True,
      measureText = (\<lambda>font text. 3 * real (length text)),
      toDataURL = (\<lambda>c type.
         if width c = 0 \<or> height c = 0 then lit ''data:,''
         else lit ''data:'' @ type @ lit '';'' @ intToString (Some (width c)) @ lit ''x''
                @ intToString (Some (height c)) @ lit '';'' @ paintedStyles c),
      numberToString = (\<lambda>x. intToString (Some \<lfloor>x\<rfloor>))\<rparr>"

definition demoOption :: WatermarkImageOption where
  \<comment> \<open>Options whose tile has an integer diagonal on \<open>testPlatform\<close>.\<close>
  "demoOption = \<lparr>fontSize = 4, angle = - 45, opacity = 1, color = lit ''#000000''\<rparr>"



section \<open>Properties of \<^verbatim>\<open>hexToRgba\<close>\<close>

lemma hexDigit_cases:
  "isRadixDigit 16 c \<longleftrightarrow>
     (0x30 \<le> c \<and> c \<le> 0x39) \<or> (0x41 \<le> c \<and> c \<le> 0x46) \<or> (0x61 \<le> c \<and> c \<le> 0x66)"
  unfolding isRadixDigit_def digitValue_def
  by (auto simp: word_le_nat_alt word_less_nat_alt)

lemma hexDigit_not_space: "isRadixDigit 16 c \<Longrightarrow> \<not> isWhiteSpace c"
  unfolding hexDigit_cases isWhiteSpace_def
  by (auto simp: word_le_nat_alt)

lemma hexDigit_not_sign:
  "isRadixDigit 16 c \<Longrightarrow> c \<noteq> 0x2D \<and> c \<noteq> 0x2B \<and> c \<noteq> 0x78 \<and> c \<noteq> 0x58"
  unfolding hexDigit_cases
  by (auto simp: word_le_nat_alt)

lemma parseInt_two_hex:
  assumes "isRadixDigit 16 a" "isRadixDigit 16 b"
  shows "parseInt [a, b] 16 = Some (int (16 * digitValue a + digitValue b))"
  using assms hexDigit_not_space [OF assms(1)] hexDigit_not_sign [OF assms(1)]
    hexDigit_not_sign [OF assms(2)]
  by (simp add: parseInt_def stripSign_def hasHexPrefix_def digitsValue_def)

lemma channel_bound:
  "isRadixDigit 16 a \<Longrightarrow> isRadixDigit 16 b \<Longrightarrow> 16 * digitValue a + digitValue b \<le> 255"
  by (simp add: isRadixDigit_def)

lemma slice_const:
  "slice (h # r1 # r2 # g1 # g2 # b1 # b2 # rest) 1 3 = [r1, r2]"
  "slice (h # r1 # r2 # g1 # g2 # b1 # b2 # rest) 3 5 = [g1, g2]"
  "slice (h # r1 # r2 # g1 # g2 # b1 # b2 # rest) 5 7 = [b1, b2]"
  by (simp_all add: slice_def Let_def)

lemma hexToRgba_cons:
  "hexToRgba ns (h # r1 # r2 # g1 # g2 # b1 # b2 # rest) alpha =
     rgbaString (parseInt [r1, r2] 16) (parseInt [g1, g2] 16) (parseInt [b1, b2] 16) (ns alpha)"
  by (simp add: hexToRgba_def slice_const)

lemmas hexToRgba_eval =
  hexToRgba_def rgbaString_def lit_def slice_def parseInt_def stripSign_def hasHexPrefix_def
  isWhiteSpace_def isRadixDigit_def digitValue_def digitsValue_def intToString_def
  natToString.simps

lemma hexToRgba_black:
  "hexToRgba ns (lit ''#000000'') (5 / 100) = lit ''rgba(0, 0, 0, '' @ ns (5 / 100) @ lit '')''"
  by (simp add: hexToRgba_eval)

lemma hexToRgba_white:
  "hexToRgba ns (lit ''#FFFFFF'') 1 = lit ''rgba(255, 255, 255, '' @ ns 1 @ lit '')''"
  by (simp add: hexToRgba_eval)

lemma hexToRgba_alpha_pair:
  "hexToRgba ns (lit ''#FF000080'') 1 = lit ''rgba(255, 0, 0, '' @ ns 1 @ lit '')''"
  by (simp add: hexToRgba_eval)

text \<open>
  Claim C3. For a string \<^verbatim>\<open>#RRGGBB\<close> of six hexadecimal digits after the \<^verbatim>\<open>#\<close> and
  every opacity, \<^verbatim>\<open>hexToRgba\<close> returns \<^verbatim>\<open>rgba(r, g, b, opacity)\<close>: each channel is its
  pair of digits read in base 16 (a value of at most 255) and the alpha component is the
  opacity as supplied. In particular \<^verbatim>\<open>#000000\<close> with 0.05 gives the channels 0, 0, 0 and
  \<^verbatim>\<open>#FFFFFF\<close> with 1 gives 255, 255, 255; the alpha pair of \<^verbatim>\<open>#FF000080\<close> does not reach
  the result, and for every input string the last component is the formatted opacity.
\<close>

theorem hexToRgba_RRGGBB:
  "(isRadixDigit 16 r1 \<and> isRadixDigit 16 r2 \<and> isRadixDigit 16 g1 \<and> isRadixDigit 16 g2
      \<and> isRadixDigit 16 b1 \<and> isRadixDigit 16 b2 \<longrightarrow>
    hexToRgba ns (0x23 # [r1, r2, g1, g2, b1, b2]) opacity' =
      lit ''rgba('' @ intToString (Some (int (16 * digitValue r1 + digitValue r2)))
        @ lit '', '' @ intToString (Some (int (16 * digitValue g1 + digitValue g2)))
        @ lit '', '' @ intToString (Some (int (16 * digitValue b1 + digitValue b2)))
        @ lit '', '' @ ns opacity' @ lit '')''
    \<and> 16 * digitValue r1 + digitValue r2 \<le> 255
    \<and> 16 * digitValue g1 + digitValue g2 \<le> 255
    \<and> 16 * digitValue b1 + digitValue b2 \<le> 255)
   \<and> hexToRgba ns (lit ''#000000'') (5 / 100) = lit ''rgba(0, 0, 0, '' @ ns (5 / 100) @ lit '')''
   \<and> hexToRgba ns (lit ''#FFFFFF'') 1 = lit ''rgba(255, 255, 255, '' @ ns 1 @ lit '')''
   \<and> hexToRgba ns (lit ''#FF000080'') 1 = lit ''rgba(255, 0, 0, '' @ ns 1 @ lit '')''
   \<and> hexToRgba ns hex opacity' =
        lit ''rgba('' @ intToString (parseInt (slice hex 1 3) 16)
          @ lit '', '' @ intToString (parseInt (slice hex 3 5) 16)
          @ lit '', '' @ intToString (parseInt (slice hex 5 7) 16)
          @ lit '', '' @ ns opacity' @ lit '')''"
proof -
  have "hexToRgba ns hex opacity' =
        lit ''rgba('' @ intToString (parseInt (slice hex 1 3) 16)
          @ lit '', '' @ intToString (parseInt (slice hex 3 5) 16)
          @ lit '', '' @ intToString (parseInt (slice hex 5 7) 16)
          @ lit '', '' @ ns opacity' @ lit '')''"
    by (simp add: hexToRgba_def rgbaString_def)
  then show ?thesis
    using hexToRgba_black hexToRgba_white hexToRgba_alpha_pair
    by (simp add: hexToRgba_cons parseInt_two_hex rgbaString_def channel_bound)
qed

theorem hexToRgba_RRGGBB_witness:
  "hexToRgba (numberToString testPlatform) (lit ''#1a2B3c'') 1 = lit ''rgba(26, 43, 60, 1)''"
  using hexToRgba_RRGGBB
    [of "0x31" "0x61" "0x32" "0x42" "0x33" "0x63" "numberToString testPlatform" 1 "[]"]
  by (simp add: lit_def isRadixDigit_def digitValue_def intToString_def natToString.simps
        testPlatform_def)

lemma slice_nth:
  assumes "7 \<le> length hex"
  shows "slice hex 1 3 = [hex ! 1, hex ! 2]"
    and "slice hex 3 5 = [hex ! 3, hex ! 4]"
    and "slice hex 5 7 = [hex ! 5, hex ! 6]"
proof -
  from assms obtain h r1 r2 g1 g2 b1 b2 rest
    where "hex = h # r1 # r2 # g1 # g2 # b1 # b2 # rest"
    by (auto simp: eval_nat_numeral Suc_le_length_iff)
  then show "slice hex 1 3 = [hex ! 1, hex ! 2]"
    and "slice hex 3 5 = [hex ! 3, hex ! 4]"
    and "slice hex 5 7 = [hex ! 5, hex ! 6]"
    by (simp_all add: slice_const eval_nat_numeral)
qed

text \<open>
  Claim C10. \<^verbatim>\<open>hexToRgba\<close> reads neither the first code unit of its input nor any code
  unit past index 6: two strings of length at least 7 that agree at the indices 1 to 6
  give the same result for every alpha, whatever stands in front (a missing or wrong
  \<^verbatim>\<open>#\<close>) and behind (the alpha pair of \<^verbatim>\<open>#RRGGBBAA\<close>).
\<close>

theorem hexToRgba_reads_1_to_6:
  assumes "7 \<le> length hex" and "7 \<le> length hex'"
    and "\<forall>i. 1 \<le> i \<and> i \<le> 6 \<longrightarrow> hex ! i = hex' ! i"
  shows "hexToRgba ns hex alpha = hexToRgba ns hex' alpha"
proof -
  have "hex ! 1 = hex' ! 1" "hex ! 2 = hex' ! 2" "hex ! 3 = hex' ! 3"
    "hex ! 4 = hex' ! 4" "hex ! 5 = hex' ! 5" "hex ! 6 = hex' ! 6"
    using assms(3) by simp_all
  then show ?thesis
    by (simp add: hexToRgba_def slice_nth [OF assms(1)] slice_nth [OF assms(2)])
qed

theorem hexToRgba_reads_1_to_6_witness:
  "hexToRgba (numberToString testPlatform) (lit ''XFF8000AB'') 1 =
   hexToRgba (numberToString testPlatform) (lit ''#FF8000'') 1"
proof -
  have idx: "i = 1 \<or> i = 2 \<or> i = 3 \<or> i = 4 \<or> i = 5 \<or> i = 6"
    if "1 \<le> i \<and> i \<le> 6" for i :: nat
    using that by arith
  have same: "\<forall>i. 1 \<le> i \<and> i \<le> 6 \<longrightarrow> lit ''XFF8000AB'' ! i = lit ''#FF8000'' ! i"
  proof (intro allI impI)
    fix i :: nat
    assume "1 \<le> i \<and> i \<le> 6"
    from idx [OF this] show "lit ''XFF8000AB'' ! i = lit ''#FF8000'' ! i"
      by (elim disjE) (simp_all add: lit_def)
  qed
  have len: "7 \<le> length (lit ''XFF8000AB'')" "7 \<le> length (lit ''#FF8000'')"
    by (simp_all add: lit_def)
  show ?thesis
    by (rule hexToRgba_reads_1_to_6 [OF len same])
qed

section \<open>The canvas that \<^verbatim>\<open>createWatermarkImage\<close> draws\<close>

lemmas canvas_ops =
  set_font_def set_fillStyle_def set_textAlign_def set_textBaseline_def set_width_def
  set_height_def transform_def clearRect_def fillText_def createElement_canvas_def

lemma textWidth_eq: "textWidth p text options = measureText p (measureFont p options) text"
  by (simp add: textWidth_def set_font_def)


lemma drawWatermark_Inr:
  assumes "getContext2d p"
  shows "\<exists>c. drawWatermark p text options = Inr c
           \<and> width c = canvasSize p text options \<and> height c = canvasSize p text options
           \<and> fillStyle (ctx c) = hexToRgba (numberToString p) (color options) (opacity options)"
  using assms by (simp add: drawWatermark_def Let_def canvas_ops)

lemma drawWatermark_Inl: "\<not> getContext2d p \<Longrightarrow> drawWatermark p text options = Inl TypeError"
  by (simp add: drawWatermark_def)

lemma drawWatermark_side:
  "map_sum id width (drawWatermark p text options)
     = (if getContext2d p then Inr (canvasSize p text options) else Inl TypeError)"
  "map_sum id height (drawWatermark p text options)
     = (if getContext2d p then Inr (canvasSize p text options) else Inl TypeError)"
  using drawWatermark_Inr [of p "text" options] drawWatermark_Inl [of p "text" options]
  by auto

lemma createWatermarkImage_Inr:
  assumes "getContext2d p"
  shows "\<exists>c. drawWatermark p text options = Inr c
           \<and> createWatermarkImage p text options = Inr (toDataURL p c (lit ''image/png''))
           \<and> width c = canvasSize p text options \<and> height c = canvasSize p text options
           \<and> fillStyle (ctx c) = hexToRgba (numberToString p) (color options) (opacity options)
           \<and> FillText text 0 0 (ctx c) \<in> set (bitmap c)"
  using assms by (simp add: createWatermarkImage_def drawWatermark_def Let_def canvas_ops)

lemma createWatermarkImage_errors:
  "createWatermarkImage p text options = Inl e \<Longrightarrow> e = TypeError"
  by (cases "getContext2d p") (auto simp: createWatermarkImage_def drawWatermark_def Let_def)

subsection \<open>The model on \<open>testPlatform\<close>\<close>

lemma testPlatform_simps:
  "getContext2d testPlatform"
  "devicePixelRatio testPlatform = 1"
  "measureText testPlatform f t = 3 * real (length t)"
  "numberToString testPlatform x = intToString (Some \<lfloor>x\<rfloor>)"
  by (simp_all add: testPlatform_def devicePixelRatio_def)

lemma sqrt_25: "sqrt 25 = 5"
  by (rule real_sqrt_unique) simp_all


lemma canvasSize_demo:
  "canvasSize testPlatform (lit ''a'') (options\<lparr>fontSize := 4\<rparr>) = 5"
  "canvasSize testPlatform [] (options\<lparr>fontSize := 0\<rparr>) = 0"
  by (simp_all add: canvasSize_def diagonal_def textWidth_eq textHeight_def testPlatform_simps
      lit_def sqrt_25)

lemma createWatermarkImage_testPlatform:
  "createWatermarkImage testPlatform t options =
     Inr (if canvasSize testPlatform t options = 0 then lit ''data:,''
          else lit ''data:image/png;'' @ intToString (Some (canvasSize testPlatform t options))
                 @ lit ''x'' @ intToString (Some (canvasSize testPlatform t options)) @ lit '';''
                 @ hexToRgba (numberToString testPlatform) (color options) (opacity options))"
  by (simp add: createWatermarkImage_def drawWatermark_def Let_def canvas_ops
      paintedStyles_def testPlatform_def lit_def)


lemma bad_color_string:
  "hexToRgba (numberToString testPlatform) (lit ''bad-color'') 1 = lit ''rgba(173, -12, NaN, 1)''"
  by (simp add: hexToRgba_eval testPlatform_def)

section \<open>The side of the tile\<close>


lemma diagonal_mono:
  assumes "w\<^sup>2 \<le> w'\<^sup>2" and "h\<^sup>2 \<le> h'\<^sup>2"
  shows "diagonal w h \<le> diagonal w' h'"
  unfolding diagonal_def
  by (intro ceiling_mono real_sqrt_le_mono add_mono assms)


lemma angle_update_canvasSize:
  "canvasSize p text (options\<lparr>angle := x\<rparr>) = canvasSize p text options"
  by (simp add: canvasSize_def textWidth_eq textHeight_def measureFont_def)



text \<open>
  Claim C2. The side of the tile does not depend on the angle: for every text, font size
  and pixel scale, any two angles (of either sign, of any size) give the same
  \<^verbatim>\<open>canvasSize\<close> and the same width and height of the canvas.
\<close>

theorem canvasSize_angle:
  "canvasSize p text (options\<lparr>angle := a\<rparr>) = canvasSize p text (options\<lparr>angle := b\<rparr>)
   \<and> map_sum id width (drawWatermark p text (options\<lparr>angle := a\<rparr>))
       = map_sum id width (drawWatermark p text (options\<lparr>angle := b\<rparr>))
   \<and> map_sum id height (drawWatermark p text (options\<lparr>angle := a\<rparr>))
       = map_sum id height (drawWatermark p text (options\<lparr>angle := b\<rparr>))"
proof -
  have side: "canvasSize p text (options\<lparr>angle := a\<rparr>)
                = canvasSize p text (options\<lparr>angle := b\<rparr>)"
    by (simp add: angle_update_canvasSize)
  moreover have "map_sum id width (drawWatermark p text (options\<lparr>angle := a\<rparr>))
       = map_sum id width (drawWatermark p text (options\<lparr>angle := b\<rparr>))"
    unfolding drawWatermark_side using side by simp
  moreover have "map_sum id height (drawWatermark p text (options\<lparr>angle := a\<rparr>))
       = map_sum id height (drawWatermark p text (options\<lparr>angle := b\<rparr>))"
    unfolding drawWatermark_side using side by simp
  ultimately show ?thesis by blast
qed

theorem canvasSize_angle_witness:
  "canvasSize testPlatform (lit ''a'') (demoOption\<lparr>angle := 30\<rparr>)
     = canvasSize testPlatform (lit ''a'') (demoOption\<lparr>angle := - 45\<rparr>)"
  using canvasSize_angle [where p = testPlatform and options = demoOption and a = 30 and b = "- 45"]
  by simp

text \<open>
  Claim C9. The side of the tile never decreases when the measured width of the text
  grows with the height unchanged, nor when the font size grows with the measured width
  unchanged: first for the expression of line 100 in the width and the font size, then for
  \<^verbatim>\<open>canvasSize\<close> between two texts and between two font sizes. Widths and font sizes
  are those of the data model, not negative.
\<close>

theorem canvasSize_mono:
  "(0 \<le> w \<and> w \<le> w' \<longrightarrow> diagonal w h \<le> diagonal w' h)
   \<and> (0 \<le> f \<and> f \<le> f' \<longrightarrow> diagonal v (f * d) \<le> diagonal v (f' * d))
   \<and> (0 \<le> textWidth p t options \<and> textWidth p t options \<le> textWidth p t' options \<longrightarrow>
        canvasSize p t options \<le> canvasSize p t' options)
   \<and> (0 \<le> fontSize options \<and> fontSize options \<le> fontSize options'
        \<and> textWidth p t options = textWidth p t options' \<longrightarrow>
        canvasSize p t options \<le> canvasSize p t options')"
proof (intro conjI impI)
  assume "0 \<le> w \<and> w \<le> w'"
  then have "w\<^sup>2 \<le> w'\<^sup>2" by (simp add: power_mono)
  then show "diagonal w h \<le> diagonal w' h" by (simp add: diagonal_mono)
next
  assume "0 \<le> f \<and> f \<le> f'"
  then have "f\<^sup>2 \<le> f'\<^sup>2" by (simp add: power_mono)
  then have "(f * d)\<^sup>2 \<le> (f' * d)\<^sup>2"
    by (simp add: power_mult_distrib mult_right_mono)
  then show "diagonal v (f * d) \<le> diagonal v (f' * d)" by (simp add: diagonal_mono)
next
  assume "0 \<le> textWidth p t options \<and> textWidth p t options \<le> textWidth p t' options"
  then have "(textWidth p t options)\<^sup>2 \<le> (textWidth p t' options)\<^sup>2" by (simp add: power_mono)
  then show "canvasSize p t options \<le> canvasSize p t' options"
    by (simp add: canvasSize_def diagonal_mono)
next
  assume a: "0 \<le> fontSize options \<and> fontSize options \<le> fontSize options'
        \<and> textWidth p t options = textWidth p t options'"
  then have "(fontSize options)\<^sup>2 \<le> (fontSize options')\<^sup>2" by (simp add: power_mono)
  then have "(textHeight p options)\<^sup>2 \<le> (textHeight p options')\<^sup>2"
    by (simp add: textHeight_def power_mult_distrib mult_right_mono)
  with a show "canvasSize p t options \<le> canvasSize p t options'"
    by (simp add: canvasSize_def diagonal_mono)
qed

theorem canvasSize_mono_witness:
  "diagonal 0 4 \<le> diagonal 3 4
   \<and> diagonal 3 (0 * 1) \<le> diagonal 3 (4 * 1)
   \<and> canvasSize testPlatform [] demoOption \<le> canvasSize testPlatform (lit ''a'') demoOption
   \<and> canvasSize testPlatform (lit ''a'') (demoOption\<lparr>fontSize := 0\<rparr>)
       \<le> canvasSize testPlatform (lit ''a'') demoOption"
  using canvasSize_mono [where w = 0 and w' = 3 and h = 4 and v = 3 and f = 0 and f' = 4 and d = 1
      and p = testPlatform and t = "[]" and t' = "lit ''a''"
      and options = demoOption and options' = demoOption]
    canvasSize_mono [where w = 0 and w' = 3 and h = 4 and v = 3 and f = 0 and f' = 4 and d = 1
      and p = testPlatform and t = "lit ''a''" and t' = "lit ''a''"
      and options = "demoOption\<lparr>fontSize := 0\<rparr>" and options' = demoOption]
  by (simp add: textWidth_eq testPlatform_simps demoOption_def lit_def)

section \<open>Determinism\<close>



section \<open>Inputs that the specification calls invalid\<close>

lemma parseInt_empty: "parseInt [] 16 = None"
  by (simp add: parseInt_def stripSign_def hasHexPrefix_def)

lemma parseInt_no_digit:
  assumes "\<not> isRadixDigit 16 c" and "\<not> isWhiteSpace c" and "c \<noteq> 0x2D" and "c \<noteq> 0x2B"
  shows "parseInt (c # rest) 16 = None"
proof -
  have "c \<noteq> 0x30" using assms(1) by (auto simp: isRadixDigit_def digitValue_def)
  then have "\<not> hasHexPrefix (c # rest)"
    by (simp add: hasHexPrefix_def split: list.splits)
  with assms show ?thesis
    by (simp add: parseInt_def stripSign_def)
qed

text \<open>
  Claim C4, as the code has it. \<^verbatim>\<open>hexToRgba\<close> has no failure: for every input string,
  of the form \<^verbatim>\<open>#RRGGBB\<close> or not, it returns \<^verbatim>\<open>rgba(r, g, b, alpha)\<close> with each channel
  the \<^verbatim>\<open>parseInt\<close> of its slice, and \<^verbatim>\<open>createWatermarkImage\<close> assigns that string to
  \<^verbatim>\<open>fillStyle\<close>, draws the text and returns an image, never \<open>InvalidColorFormat\<close>.
  A channel is printed as \<^verbatim>\<open>NaN\<close> when its slice is empty (the blue one for an input of at
  most five code units) or starts with a code unit that is no hexadecimal digit, white
  space or sign.
\<close>

theorem hexToRgba_unchecked:
  "createWatermarkImage p text options \<noteq> Inl InvalidColorFormat
   \<and> (getContext2d p \<longrightarrow>
        (\<exists>c. drawWatermark p text options = Inr c
           \<and> createWatermarkImage p text options = Inr (toDataURL p c (lit ''image/png''))
           \<and> fillStyle (ctx c) = hexToRgba (numberToString p) (color options) (opacity options)
           \<and> FillText text 0 0 (ctx c) \<in> set (bitmap c)))
   \<and> hexToRgba ns hex alpha =
        lit ''rgba('' @ intToString (parseInt (slice hex 1 3) 16)
          @ lit '', '' @ intToString (parseInt (slice hex 3 5) 16)
          @ lit '', '' @ intToString (parseInt (slice hex 5 7) 16)
          @ lit '', '' @ ns alpha @ lit '')''
   \<and> intToString None = lit ''NaN''
   \<and> (length hex \<le> 5 \<longrightarrow> parseInt (slice hex 5 7) 16 = None)
   \<and> (\<not> isRadixDigit 16 c \<and> \<not> isWhiteSpace c \<and> c \<noteq> 0x2D \<and> c \<noteq> 0x2B \<longrightarrow>
        parseInt (c # rest) 16 = None)"
proof (intro conjI impI)
  show "createWatermarkImage p text options \<noteq> Inl InvalidColorFormat"
    using createWatermarkImage_errors [of p "text" options InvalidColorFormat] by auto
next
  assume "getContext2d p"
  from createWatermarkImage_Inr [OF this]
  show "\<exists>c. drawWatermark p text options = Inr c
           \<and> createWatermarkImage p text options = Inr (toDataURL p c (lit ''image/png''))
           \<and> fillStyle (ctx c) = hexToRgba (numberToString p) (color options) (opacity options)
           \<and> FillText text 0 0 (ctx c) \<in> set (bitmap c)"
    by blast
next
  show "hexToRgba ns hex alpha =
        lit ''rgba('' @ intToString (parseInt (slice hex 1 3) 16)
          @ lit '', '' @ intToString (parseInt (slice hex 3 5) 16)
          @ lit '', '' @ intToString (parseInt (slice hex 5 7) 16)
          @ lit '', '' @ ns alpha @ lit '')''"
    by (simp add: hexToRgba_def rgbaString_def)
next
  show "intToString None = lit ''NaN''" by (simp add: intToString_def)
next
  assume "length hex \<le> 5"
  then have "slice hex 5 7 = []" by (simp add: slice_def Let_def)
  then show "parseInt (slice hex 5 7) 16 = None" by (simp add: parseInt_empty)
next
  assume "\<not> isRadixDigit 16 c \<and> \<not> isWhiteSpace c \<and> c \<noteq> 0x2D \<and> c \<noteq> 0x2B"
  then show "parseInt (c # rest) 16 = None" by (simp add: parseInt_no_digit)
qed

theorem hexToRgba_unchecked_witness:
  "(\<exists>c. drawWatermark testPlatform (lit ''a'') (demoOption\<lparr>color := lit ''bad-color''\<rparr>) = Inr c
       \<and> fillStyle (ctx c) = lit ''rgba(173, -12, NaN, 1)'')
   \<and> parseInt (slice (lit ''#12'') 5 7) 16 = None
   \<and> parseInt (lit ''ol'') 16 = None"
proof -
  note t = hexToRgba_unchecked [where p = testPlatform and options = "demoOption\<lparr>color := lit ''bad-color''\<rparr>"
      and hex = "lit ''#12''" and c = "0x6F" and rest = "[0x6C]"]
  have "\<exists>c. drawWatermark testPlatform (lit ''a'') (demoOption\<lparr>color := lit ''bad-color''\<rparr>) = Inr c
       \<and> fillStyle (ctx c) = lit ''rgba(173, -12, NaN, 1)''"
    using t [of "lit ''a''"] bad_color_string by (auto simp: testPlatform_simps demoOption_def)
  moreover have "parseInt (slice (lit ''#12'') 5 7) 16 = None"
    using t by (simp add: lit_def)
  moreover have "parseInt (lit ''ol'') 16 = None"
    using t by (simp add: lit_def isRadixDigit_def digitValue_def isWhiteSpace_def)
  ultimately show ?thesis by blast
qed

text \<open>
  The input \<^verbatim>\<open>bad-color\<close> of the specification: the red and green slices \<^verbatim>\<open>ad\<close> and
  \<^verbatim>\<open>-c\<close> are numbers for \<^verbatim>\<open>parseInt\<close>, the blue slice \<^verbatim>\<open>ol\<close> is not, and the image is
  returned with that fill style.
\<close>

theorem hexToRgba_bad_color_returns:
  "hexToRgba (numberToString testPlatform) (lit ''bad-color'') 1 = lit ''rgba(173, -12, NaN, 1)''
   \<and> createWatermarkImage testPlatform (lit ''a'') (demoOption\<lparr>color := lit ''bad-color''\<rparr>)
       = Inr (lit ''data:image/png;5x5;rgba(173, -12, NaN, 1)'')
   \<and> createWatermarkImage testPlatform (lit ''a'') (demoOption\<lparr>color := lit ''bad-color''\<rparr>)
       \<noteq> Inl InvalidColorFormat"
proof -
  have "canvasSize testPlatform (lit ''a'') (demoOption\<lparr>color := lit ''bad-color''\<rparr>) = 5"
    using canvasSize_demo(1) [of "demoOption\<lparr>color := lit ''bad-color''\<rparr>"]
    by (simp add: demoOption_def)
  then have "createWatermarkImage testPlatform (lit ''a'') (demoOption\<lparr>color := lit ''bad-color''\<rparr>)
       = Inr (lit ''data:image/png;5x5;rgba(173, -12, NaN, 1)'')"
    by (simp add: createWatermarkImage_testPlatform bad_color_string demoOption_def)
       (simp add: lit_def intToString_def natToString.simps)
  then show ?thesis using bad_color_string by simp
qed




section \<open>The memoised image\<close>

lemma useMemo_None:
  "memoizedState h = None \<Longrightarrow>
   useMemo factory nextDeps h =
     (case factory () of
        Inl e \<Rightarrow> Inl e
      | Inr v \<Rightarrow> Inr (v, \<lparr>memoizedState = Some \<lparr>deps = nextDeps, memoValue = v\<rparr>,
                        factoryCalls = Suc (factoryCalls h)\<rparr>))"
  by (simp add: useMemo_def)

lemma useMemo_Some:
  "memoizedState h = Some m \<Longrightarrow>
   useMemo factory nextDeps h =
     (if deps m = nextDeps then Inr (memoValue m, h)
      else case factory () of
        Inl e \<Rightarrow> Inl e
      | Inr v \<Rightarrow> Inr (v, \<lparr>memoizedState = Some \<lparr>deps = nextDeps, memoValue = v\<rparr>,
                        factoryCalls = Suc (factoryCalls h)\<rparr>))"
  by (simp add: useMemo_def)

text \<open>
  Claim C6, as the code has it. When \<^verbatim>\<open>getContext('2d')\<close> returns \<^verbatim>\<open>null\<close>, the first
  write to the context (line 92) throws the \<open>TypeError\<close> of the runtime: there is no
  \<open>RenderUnavailable\<close>. No image is returned, the exception leaves \<^verbatim>\<open>useMemo\<close> and the
  render of the hook, and a render that does return hands out the image that an earlier
  render cached.
\<close>

theorem createWatermarkImage_without_context:
  assumes "\<not> getContext2d p"
  shows "createWatermarkImage p text options = Inl TypeError
    \<and> useWatermark p text option' \<lparr>memoizedState = None, factoryCalls = n\<rparr> = Inl TypeError
    \<and> (useWatermark p text option' h = Inl TypeError
        \<or> (\<exists>m. memoizedState h = Some m \<and> useWatermark p text option' h = Inr (memoValue m, h)))"
proof -
  have fail: "createWatermarkImage p text opts = Inl TypeError" for opts :: "'b WatermarkImageOption_scheme"
    using assms by (simp add: createWatermarkImage_def drawWatermark_def)
  have "createWatermarkImage p text options = Inl TypeError"
    using assms by (simp add: createWatermarkImage_def drawWatermark_def)
  moreover have "useWatermark p text option' \<lparr>memoizedState = None, factoryCalls = n\<rparr> = Inl TypeError"
    by (simp add: useWatermark_def Let_def useMemo_None fail)
  moreover have "useWatermark p text option' h = Inl TypeError
        \<or> (\<exists>m. memoizedState h = Some m \<and> useWatermark p text option' h = Inr (memoValue m, h))"
  proof (cases "memoizedState h")
    case None
    then show ?thesis by (simp add: useWatermark_def Let_def useMemo_None fail)
  next
    case (Some m)
    then show ?thesis by (simp add: useWatermark_def Let_def useMemo_Some fail)
  qed
  ultimately show ?thesis by blast
qed

theorem createWatermarkImage_without_context_witness:
  "useWatermark (testPlatform\<lparr>getContext2d := False\<rparr>) (lit ''a'') None
     \<lparr>memoizedState = None, factoryCalls = 0\<rparr> = Inl TypeError"
  using createWatermarkImage_without_context
    [of "testPlatform\<lparr>getContext2d := False\<rparr>" "lit ''a''" demoOption None 0
      "\<lparr>memoizedState = None, factoryCalls = 0\<rparr>"]
  by simp

text \<open>
  Without a context on \<open>testPlatform\<close>: the error is \<open>TypeError\<close>, not \<open>RenderUnavailable\<close>.
\<close>

theorem createWatermarkImage_no_context_TypeError:
  "createWatermarkImage (testPlatform\<lparr>getContext2d := False\<rparr>) (lit ''a'') demoOption
     = Inl TypeError
   \<and> createWatermarkImage (testPlatform\<lparr>getContext2d := False\<rparr>) (lit ''a'') demoOption
       \<noteq> Inl RenderUnavailable"
  by (simp add: createWatermarkImage_def drawWatermark_def)



end
